theory Spec2Isabelle
  imports Main "HOL-Library.AList"
begin

section \<open>Python values, exceptions and the outside world\<close>

text \<open>
  The web API for the mode solver (\<^verbatim>\<open>tidy3d/web/api/mode.py\<close>) drives a remote
  service through collaborators that are not part of the module: the HTTP client, the
  S3 helpers, the folder registry, the local file system, the logger and the payload
  classes. The embedding keeps the module's own control flow and makes each collaborator
  explicit: every call to one of them is recorded, in order, in a trace, and what the
  call answers is read from an environment.
\<close>

type_synonym ModeSolver = nat
  \<comment> \<open>a \<^verbatim>\<open>ModeSolver\<close> object, by identity\<close>
type_synonym Simulation = nat
type_synonym ModeSolverData = nat
type_synonym ModeSolverMonitor = nat
type_synonym callback = "nat option"
  \<comment> \<open>\<^verbatim>\<open>progress_callback\<close>: \<^verbatim>\<open>None\<close> or a callable, by identity\<close>

datatype pyval =
    PNone
  | PStr string
  | PInt int
  | PFloat int int
  | PBool bool
  | PList "pyval list"
  | PDict "(string \<times> pyval) list"
  | PModeSolver ModeSolver
  | PSimulation Simulation

type_synonym pydict = "(string \<times> pyval) list"

datatype exn =
    ClientError string
  | WebError string "exn option"
  | ValidationError "string list"
  | KeyError string
  | TypeError string
  | AttributeError string
  | OSError string
  | OtherException string
  | KeyboardInterrupt

text \<open>\<^verbatim>\<open>except Exception\<close> catches every exception of the model but \<^verbatim>\<open>KeyboardInterrupt\<close>,
  which derives from \<^verbatim>\<open>BaseException\<close> only.\<close>

fun is_Exception :: "exn \<Rightarrow> bool" where
  "is_Exception KeyboardInterrupt = False"
| "is_Exception _ = True"

fun is_ClientError :: "exn \<Rightarrow> bool" where
  "is_ClientError (ClientError _) = True"
| "is_ClientError _ = False"

datatype path = TempPath nat string | UserPath string
  \<comment> \<open>a file made by \<^verbatim>\<open>tempfile.mkstemp\<close> (number, suffix), or a path the caller names\<close>

datatype event =
    FolderGet string bool
  | HttpPost string pydict
  | HttpGet string
  | HttpPut string pydict
  | HttpDelete string
  | Mkstemp string path
  | OsClose path
  | OsUnlink path
  | SimToHdf5Gz Simulation path
  | ToHdf5Gz ModeSolver path
  | UploadFile "string option" path string bool callback
  | DownloadFile "string option" string path bool callback
  | DownloadGzFile "string option" string path bool callback
  | FromHdf5Gz path
  | FromHdf5 path
  | DictFromJson path
  | SimFromJson path
  | ParseObj pydict
  | ToFile ModeSolver path
  | DataFromHdf5 path
  | LogMsg string string
  | LogInfo string "pyval list"
  | ConsoleLog string
  | Sleep

record world =
  trace :: "event list"
  tick :: nat
  tmpfiles :: "path list"
  data_raw :: "ModeSolver \<Rightarrow> ModeSolverData option"

text \<open>
  \<^item> \<open>trace\<close>: the calls made to the collaborators, oldest first;
  \<^item> \<open>tick\<close>: how many answers the program has taken from the outside so far;
  \<^item> \<open>tmpfiles\<close>: the temporary files that exist;
  \<^item> \<open>data_raw\<close>: \<^verbatim>\<open>_cached_properties["data_raw"]\<close> of each \<^verbatim>\<open>ModeSolver\<close> object.
\<close>

record env =
  version :: string
  enable_caching :: bool
  str_validator :: "pyval \<Rightarrow> string option"
  float_validator :: "pyval \<Rightarrow> pyval option"
  datetime_validator :: "pyval \<Rightarrow> pyval option"
  ModeSolver_validator :: "pyval \<Rightarrow> ModeSolver option"
  scene_mediums :: "Simulation \<Rightarrow> nat list"
  is_AbstractCustomMedium :: "nat \<Rightarrow> bool"
  reduced_simulation_copy :: "ModeSolver \<Rightarrow> ModeSolver"
  validate_pre_upload :: "ModeSolver \<Rightarrow> exn option"
  sim_validate_pre_upload :: "Simulation \<Rightarrow> bool \<Rightarrow> exn option"
  copy :: "ModeSolver \<Rightarrow> ModeSolver"
  simulation :: "ModeSolver \<Rightarrow> Simulation"
  to_mode_solver_monitor :: "ModeSolver \<Rightarrow> string \<Rightarrow> ModeSolverMonitor"
  data_copy_monitor :: "ModeSolverData \<Rightarrow> ModeSolverMonitor \<Rightarrow> ModeSolverData"
  symmetry_expanded :: "ModeSolver \<Rightarrow> ModeSolverData option \<Rightarrow> ModeSolverData"
  Folder_get_res :: "nat \<Rightarrow> exn + string"
  http_post_res :: "nat \<Rightarrow> exn + pyval"
  http_get_res :: "nat \<Rightarrow> exn + pyval"
  http_put_res :: "nat \<Rightarrow> exn + pyval"
  http_delete_res :: "nat \<Rightarrow> exn + pyval"
  to_hdf5_gz_res :: "nat \<Rightarrow> exn + unit"
  upload_file_res :: "nat \<Rightarrow> exn + unit"
  download_file_res :: "nat \<Rightarrow> exn + path"
  download_gz_file_res :: "nat \<Rightarrow> exn + path"
  from_hdf5_gz_res :: "nat \<Rightarrow> exn + ModeSolver"
  from_hdf5_res :: "nat \<Rightarrow> exn + ModeSolver"
  dict_from_json_res :: "nat \<Rightarrow> exn + pydict"
  sim_from_json_res :: "nat \<Rightarrow> exn + Simulation"
  parse_obj_res :: "nat \<Rightarrow> exn + ModeSolver"
  to_file_res :: "nat \<Rightarrow> exn + unit"
  data_from_hdf5_res :: "nat \<Rightarrow> exn + ModeSolverData"

text \<open>
  The environment holds what the module takes from elsewhere:
  \<^item> the constants \<^verbatim>\<open>__version__\<close> and \<^verbatim>\<open>Env.current.enable_caching\<close>;
  \<^item> pydantic's validators of the field types (\<open>None\<close>: the value is refused);
  \<^item> the methods of the payload that compute locally;
  \<^item> for each collaborator that reaches the network or the file system, its answer
    as a function of \<open>tick\<close>: \<open>Inl e\<close> when the call raises \<open>e\<close>.
\<close>

type_synonym 'a io = "world \<Rightarrow> (exn + 'a) \<times> world"

definition io_return :: "'a \<Rightarrow> 'a io" where
  "io_return x w = (Inr x, w)"

definition io_raise :: "exn \<Rightarrow> 'a io" where
  "io_raise e w = (Inl e, w)"

definition io_bind :: "'a io \<Rightarrow> ('a \<Rightarrow> 'b io) \<Rightarrow> 'b io" where
  "io_bind m f w = (case m w of (Inl e, w') \<Rightarrow> (Inl e, w') | (Inr x, w') \<Rightarrow> f x w')"

text \<open>\<^verbatim>\<open>try: body finally: fin\<close>. The handler runs on every exit of the body; an
  exception of the handler replaces the outcome of the body.\<close>

definition try_finally :: "'a io \<Rightarrow> unit io \<Rightarrow> 'a io" where
  "try_finally body fin w =
     (case body w of (r, w') \<Rightarrow>
        (case fin w' of (Inl e, w'') \<Rightarrow> (Inl e, w'') | (Inr _, w'') \<Rightarrow> (r, w'')))"

definition emit :: "event \<Rightarrow> unit io" where
  "emit ev w = (Inr (), w\<lparr>trace := trace w @ [ev]\<rparr>)"

definition call :: "event \<Rightarrow> (nat \<Rightarrow> exn + 'a) \<Rightarrow> 'a io" where
  "call ev answer w = (answer (tick w), w\<lparr>trace := trace w @ [ev], tick := Suc (tick w)\<rparr>)"

text \<open>\<^verbatim>\<open>str(x)\<close> of an optional string, as an f-string formats it.\<close>

fun fmt :: "string option \<Rightarrow> string" where
  "fmt None = ''None''"
| "fmt (Some s) = s"


subsection \<open>Temporary files\<close>

fun tmp_id :: "path \<Rightarrow> nat" where
  "tmp_id (TempPath n _) = Suc n"
| "tmp_id (UserPath _) = 0"

definition fresh_tmp :: "path list \<Rightarrow> nat" where
  "fresh_tmp fs = foldr max (map tmp_id fs) 0"

text \<open>\<^verbatim>\<open>tempfile.mkstemp(suffix)\<close> makes a file that did not exist; \<^verbatim>\<open>os.unlink\<close>
  removes a file, and raises when there is none.\<close>

definition mkstemp :: "string \<Rightarrow> path io" where
  "mkstemp suffix w =
     (let p = TempPath (fresh_tmp (tmpfiles w)) suffix
      in (Inr p, w\<lparr>trace := trace w @ [Mkstemp suffix p], tmpfiles := p # tmpfiles w\<rparr>))"

definition os_close :: "path \<Rightarrow> unit io" where
  "os_close p = emit (OsClose p)"

definition os_unlink :: "path \<Rightarrow> unit io" where
  "os_unlink p w =
     (if p \<in> set (tmpfiles w)
      then (Inr (), w\<lparr>trace := trace w @ [OsUnlink p], tmpfiles := removeAll p (tmpfiles w)\<rparr>)
      else (Inl (OSError ''FileNotFoundError''), w\<lparr>trace := trace w @ [OsUnlink p]\<rparr>))"

section \<open>Constants of the module\<close>

definition SIMULATION_JSON :: string where "SIMULATION_JSON = ''simulation.json''"
definition SIM_FILE_HDF5_GZ :: string where "SIM_FILE_HDF5_GZ = ''simulation.hdf5.gz''"
definition MODESOLVER_API :: string where "MODESOLVER_API = ''tidy3d/modesolver/py''"
definition MODESOLVER_JSON :: string where "MODESOLVER_JSON = ''mode_solver.json''"
definition MODESOLVER_HDF5 :: string where "MODESOLVER_HDF5 = ''mode_solver.hdf5''"
definition MODESOLVER_GZ :: string where "MODESOLVER_GZ = ''mode_solver.hdf5.gz''"
definition MODESOLVER_LOG :: string where "MODESOLVER_LOG = ''output/result.log''"
definition MODESOLVER_RESULT :: string where "MODESOLVER_RESULT = ''output/result.hdf5''"
definition MODESOLVER_RESULT_GZ :: string where
  "MODESOLVER_RESULT_GZ = ''output/mode_solver_data.hdf5.gz''"
definition MODE_MONITOR_NAME :: string where "MODE_MONITOR_NAME = ''<<<MODE_SOLVER_MONITOR>>>''"

section \<open>The task record\<close>

text \<open>
  \<^verbatim>\<open>class ModeSolverTask(ResourceLifecycle, Submittable, extra=pydantic.Extra.allow)\<close>.
  Every declared field has the default \<^verbatim>\<open>None\<close>, so it is optional. The server's
  response fills the fields by their aliases; what the response holds beyond them is
  kept in \<open>extra\<close>.
\<close>

record ModeSolverTask =
  task_id :: "string option"
  solver_id :: "string option"
  real_flex_unit :: pyval
  created_at :: pyval
  status :: "string option"
  file_type :: "string option"
  mode_solver :: "ModeSolver option"
  extra :: pydict

definition declared_aliases :: "string list" where
  "declared_aliases =
     [''refId'', ''id'', ''charge'', ''createdAt'', ''status'', ''fileType'', ''mode_solver'']"

text \<open>A field is left at its default when the key is absent, is \<^verbatim>\<open>None\<close> when the value
  is \<^verbatim>\<open>None\<close>, and goes through the validator of its type otherwise.\<close>

fun str_field :: "env \<Rightarrow> pyval option \<Rightarrow> string option option" where
  "str_field E None = Some None"
| "str_field E (Some PNone) = Some None"
| "str_field E (Some v) = map_option Some (str_validator E v)"

fun val_field :: "(pyval \<Rightarrow> pyval option) \<Rightarrow> pyval option \<Rightarrow> pyval option" where
  "val_field f None = Some PNone"
| "val_field f (Some PNone) = Some PNone"
| "val_field f (Some v) = f v"

text \<open>The payload class does not copy a model on validation: a \<^verbatim>\<open>ModeSolver\<close> instance
  given for the field is the object the record holds.\<close>

fun ms_field :: "env \<Rightarrow> pyval option \<Rightarrow> ModeSolver option option" where
  "ms_field E None = Some None"
| "ms_field E (Some PNone) = Some None"
| "ms_field E (Some (PModeSolver m)) = Some (Some m)"
| "ms_field E (Some v) = map_option Some (ModeSolver_validator E v)"

definition field_ok :: "env \<Rightarrow> pydict \<Rightarrow> string \<Rightarrow> bool" where
  "field_ok E kw a =
     (if a = ''refId'' \<or> a = ''id'' \<or> a = ''status'' \<or> a = ''fileType''
        then str_field E (map_of kw a) \<noteq> None
      else if a = ''charge'' then val_field (float_validator E) (map_of kw a) \<noteq> None
      else if a = ''createdAt'' then val_field (datetime_validator E) (map_of kw a) \<noteq> None
      else ms_field E (map_of kw a) \<noteq> None)"

definition ModeSolverTask_init :: "env \<Rightarrow> pydict \<Rightarrow> exn + ModeSolverTask" where
  "ModeSolverTask_init E kw =
     (let errors = filter (\<lambda>a. \<not> field_ok E kw a) declared_aliases
      in if errors \<noteq> [] then Inl (ValidationError errors)
         else Inr \<lparr>
           task_id = the (str_field E (map_of kw ''refId'')),
           solver_id = the (str_field E (map_of kw ''id'')),
           real_flex_unit = the (val_field (float_validator E) (map_of kw ''charge'')),
           created_at = the (val_field (datetime_validator E) (map_of kw ''createdAt'')),
           status = the (str_field E (map_of kw ''status'')),
           file_type = the (str_field E (map_of kw ''fileType'')),
           mode_solver = the (ms_field E (map_of kw ''mode_solver'')),
           extra = filter (\<lambda>kv. fst kv \<notin> set declared_aliases) kw \<rparr>)"

text \<open>\<^verbatim>\<open>ModeSolverTask(**resp, mode_solver=ms)\<close>: \<^verbatim>\<open>**\<close> needs a mapping, and a key
  given twice is a \<^verbatim>\<open>TypeError\<close>.\<close>

definition ModeSolverTask_with :: "env \<Rightarrow> pyval \<Rightarrow> ModeSolver option \<Rightarrow> exn + ModeSolverTask" where
  "ModeSolverTask_with E resp ms =
     (case resp of
        PDict d \<Rightarrow>
          if ''mode_solver'' \<in> fst ` set d
          then Inl (TypeError ''got multiple values for keyword argument mode_solver'')
          else ModeSolverTask_init E
                 (d @ [(''mode_solver'', case ms of None \<Rightarrow> PNone | Some m \<Rightarrow> PModeSolver m)])
      | _ \<Rightarrow> Inl (TypeError ''argument after ** must be a mapping''))"

text \<open>\<^verbatim>\<open>ModeSolverTask(**resp)\<close>.\<close>

definition ModeSolverTask_of :: "env \<Rightarrow> pyval \<Rightarrow> exn + ModeSolverTask" where
  "ModeSolverTask_of E resp =
     (case resp of
        PDict d \<Rightarrow> ModeSolverTask_init E d
      | _ \<Rightarrow> Inl (TypeError ''argument after ** must be a mapping''))"

definition lift :: "exn + 'a \<Rightarrow> 'a io" where
  "lift r w = (r, w)"

section \<open>Operations of the task\<close>

definition task_url :: "ModeSolverTask \<Rightarrow> string" where
  "task_url self = MODESOLVER_API @ ''/'' @ fmt (task_id self) @ ''/'' @ fmt (solver_id self)"

definition get_info :: "env \<Rightarrow> ModeSolverTask \<Rightarrow> ModeSolverTask io" where
  "get_info E self =
     io_bind (call (HttpGet (task_url self)) (http_get_res E)) (\<lambda>resp.
     lift (ModeSolverTask_with E resp (mode_solver self)))"

definition submit :: "env \<Rightarrow> ModeSolverTask \<Rightarrow> unit io" where
  "submit E self =
     io_bind (call (HttpPost (task_url self @ ''/run'') [(''enableCaching'', PBool (enable_caching E))])
                (http_post_res E)) (\<lambda>_.
     io_return ())"

definition delete :: "env \<Rightarrow> ModeSolverTask \<Rightarrow> unit io" where
  "delete E self =
     io_bind (call (HttpDelete (task_url self)) (http_delete_res E)) (\<lambda>_.
     io_bind (call (HttpDelete (''tidy3d/tasks/'' @ fmt (task_id self))) (http_delete_res E)) (\<lambda>_.
     io_return ()))"


definition get_log :: "env \<Rightarrow> ModeSolverTask \<Rightarrow> path \<Rightarrow> bool \<Rightarrow> callback \<Rightarrow> path io" where
  "get_log E self to_file verbose progress_callback =
     call (DownloadFile (solver_id self) MODESOLVER_LOG to_file verbose progress_callback)
          (download_file_res E)"

definition try_except :: "'a io \<Rightarrow> (exn \<Rightarrow> bool) \<Rightarrow> (exn \<Rightarrow> 'a io) \<Rightarrow> 'a io" where
  "try_except body caught handler w =
     (case body w of
        (Inl e, w') \<Rightarrow> if caught e then handler e w' else (Inl e, w')
      | (Inr x, w') \<Rightarrow> (Inr x, w'))"

definition raise_if :: "exn option \<Rightarrow> unit io" where
  "raise_if r = (case r of None \<Rightarrow> io_return () | Some e \<Rightarrow> io_raise e)"

text \<open>\<^verbatim>\<open>resp[key]\<close>.\<close>

fun subscript :: "pyval \<Rightarrow> string \<Rightarrow> exn + pyval" where
  "subscript (PDict d) k = (case map_of d k of None \<Rightarrow> Inl (KeyError k) | Some v \<Rightarrow> Inr v)"
| "subscript _ k = Inl (TypeError ''object is not subscriptable'')"

definition create :: "env \<Rightarrow> ModeSolver \<Rightarrow> string \<Rightarrow> string \<Rightarrow> string \<Rightarrow> ModeSolverTask io" where
  "create E ms task_name mode_solver_name folder_name =
     io_bind (call (FolderGet folder_name True) (Folder_get_res E)) (\<lambda>folder_id.
     io_bind (raise_if (validate_pre_upload E ms)) (\<lambda>_.
     io_bind (raise_if (sim_validate_pre_upload E (simulation E ms) False)) (\<lambda>_.
     io_bind (call (HttpPost MODESOLVER_API
                      [(''projectId'', PStr folder_id),
                       (''taskName'', PStr task_name),
                       (''protocolVersion'', PStr (version E)),
                       (''modeSolverName'', PStr mode_solver_name),
                       (''fileType'', PStr ''Gz''),
                       (''source'', PStr ''Python'')])
                (http_post_res E)) (\<lambda>resp.
     io_bind (lift (subscript resp ''refId'')) (\<lambda>ref_id.
     io_bind (lift (subscript resp ''id'')) (\<lambda>id.
     io_bind (emit (LogInfo ''Mode solver created with task_id='%s', solver_id='%s'.'' [ref_id, id])) (\<lambda>_.
     lift (ModeSolverTask_with E resp (Some ms)))))))))"

definition upload :: "env \<Rightarrow> ModeSolverTask \<Rightarrow> bool \<Rightarrow> callback \<Rightarrow> unit io" where
  "upload E self verbose progress_callback =
     (case mode_solver self of
        None \<Rightarrow> io_raise (AttributeError ''NoneType object has no attribute copy'')
      | Some ms0 \<Rightarrow>
          let ms = copy E ms0; sim = simulation E ms in
          io_bind (mkstemp ''.hdf5.gz'') (\<lambda>file_name.
          io_bind (os_close file_name) (\<lambda>_.
          io_bind (try_finally
                     (io_bind (call (SimToHdf5Gz sim file_name) (to_hdf5_gz_res E)) (\<lambda>_.
                      call (UploadFile (task_id self) file_name SIM_FILE_HDF5_GZ
                              verbose progress_callback)
                           (upload_file_res E)))
                     (os_unlink file_name)) (\<lambda>_.
          io_bind (mkstemp ''.hdf5.gz'') (\<lambda>file_name.
          io_bind (os_close file_name) (\<lambda>_.
          try_finally
            (io_bind (call (ToHdf5Gz ms file_name) (to_hdf5_gz_res E)) (\<lambda>_.
             call (UploadFile (solver_id self) file_name MODESOLVER_GZ
                     verbose progress_callback)
                  (upload_file_res E)))
            (os_unlink file_name)))))))"

definition get_modesolver ::
  "env \<Rightarrow> ModeSolverTask \<Rightarrow> path \<Rightarrow> path \<Rightarrow> bool \<Rightarrow> callback \<Rightarrow> ModeSolver io" where
  "get_modesolver E self to_file sim_file verbose progress_callback =
     io_bind
       (if file_type self = Some ''Gz'' then
          io_bind (mkstemp ''.hdf5.gz'') (\<lambda>file_path.
          io_bind (os_close file_path) (\<lambda>_.
          try_finally
            (io_bind (call (DownloadFile (solver_id self) MODESOLVER_GZ file_path
                              verbose progress_callback)
                           (download_file_res E)) (\<lambda>_.
             call (FromHdf5Gz file_path) (from_hdf5_gz_res E)))
            (os_unlink file_path)))
        else if file_type self = Some ''Hdf5'' then
          io_bind (mkstemp ''.hdf5'') (\<lambda>file_path.
          io_bind (os_close file_path) (\<lambda>_.
          try_finally
            (io_bind (call (DownloadFile (solver_id self) MODESOLVER_HDF5 file_path
                              verbose progress_callback)
                           (download_file_res E)) (\<lambda>_.
             call (FromHdf5 file_path) (from_hdf5_res E)))
            (os_unlink file_path)))
        else
          io_bind (mkstemp ''.json'') (\<lambda>file_path.
          io_bind (os_close file_path) (\<lambda>_.
          io_bind (try_finally
                     (io_bind (call (DownloadFile (solver_id self) MODESOLVER_JSON file_path
                                       verbose progress_callback)
                                    (download_file_res E)) (\<lambda>_.
                      call (DictFromJson file_path) (dict_from_json_res E)))
                     (os_unlink file_path)) (\<lambda>mode_solver_dict.
          io_bind (call (DownloadFile (task_id self) SIMULATION_JSON sim_file
                           verbose progress_callback)
                        (download_file_res E)) (\<lambda>_.
          io_bind (call (SimFromJson sim_file) (sim_from_json_res E)) (\<lambda>sim.
          call (ParseObj (AList.update ''simulation'' (PSimulation sim) mode_solver_dict))
               (parse_obj_res E)))))))
       (\<lambda>ms.
     io_bind (call (ToFile ms to_file) (to_file_res E)) (\<lambda>_.
     io_return ms))"

definition get ::
  "env \<Rightarrow> string \<Rightarrow> string \<Rightarrow> path \<Rightarrow> path \<Rightarrow> bool \<Rightarrow> callback \<Rightarrow> ModeSolverTask io" where
  "get E tid sid to_file sim_file verbose progress_callback =
     io_bind (call (HttpGet (MODESOLVER_API @ ''/'' @ tid @ ''/'' @ sid)) (http_get_res E)) (\<lambda>resp.
     io_bind (lift (ModeSolverTask_of E resp)) (\<lambda>task.
     io_bind (get_modesolver E task to_file sim_file verbose progress_callback) (\<lambda>ms.
     io_return (task\<lparr>mode_solver := Some ms\<rparr>))))"

definition set_data_raw :: "ModeSolver \<Rightarrow> ModeSolverData \<Rightarrow> unit io" where
  "set_data_raw ms d w = (Inr (), w\<lparr>data_raw := (data_raw w)(ms := Some d)\<rparr>)"

text \<open>The property \<^verbatim>\<open>mode_solver.data\<close>: the symmetry expansion of the cached raw data.\<close>

definition ms_data :: "env \<Rightarrow> ModeSolver \<Rightarrow> ModeSolverData io" where
  "ms_data E ms w = (Inr (symmetry_expanded E ms (data_raw w ms)), w)"

text \<open>
  \<^verbatim>\<open>download_gz_file\<close> and \<^verbatim>\<open>download_file\<close> return a \<^verbatim>\<open>pathlib.Path\<close>, which is never
  falsy: after the first \<^verbatim>\<open>try\<close>, \<^verbatim>\<open>not file\<close> holds exactly when \<^verbatim>\<open>file\<close> is still
  \<^verbatim>\<open>None\<close>.
\<close>

definition get_result ::
  "env \<Rightarrow> ModeSolverTask \<Rightarrow> path \<Rightarrow> bool \<Rightarrow> callback \<Rightarrow> ModeSolverData io" where
  "get_result E self to_file verbose progress_callback =
     io_bind
       (try_except
          (io_bind (call (DownloadGzFile (solver_id self) MODESOLVER_RESULT_GZ to_file
                            verbose progress_callback)
                         (download_gz_file_res E)) (\<lambda>p.
           io_return (Some p)))
          is_ClientError
          (\<lambda>_. io_bind (if verbose
                         then emit (ConsoleLog (''Unable to download '' @ [CHR 0x27] @ MODESOLVER_RESULT_GZ @ [CHR 0x27] @ ''.''))
                         else io_return ()) (\<lambda>_.
                io_return None))) (\<lambda>file.
     io_bind
       (if file = None then
          try_except
            (io_bind (call (DownloadFile (solver_id self) MODESOLVER_RESULT to_file
                              verbose progress_callback)
                           (download_file_res E)) (\<lambda>p.
             io_return (Some p)))
            is_Exception
            (\<lambda>e. io_raise (WebError
                    (''Failed to download the simulation data file from the server. '' @
                     ''Please confirm that the task was successfully run.'') (Some e)))
        else io_return file) (\<lambda>_.
     io_bind (call (DataFromHdf5 to_file) (data_from_hdf5_res E)) (\<lambda>d.
     (case mode_solver self of
        None \<Rightarrow> io_raise (AttributeError ''NoneType object has no attribute to_mode_solver_monitor'')
      | Some ms \<Rightarrow>
          io_bind (set_data_raw ms
                     (data_copy_monitor E d (to_mode_solver_monitor E ms MODE_MONITOR_NAME))) (\<lambda>_.
          ms_data E ms)))))"

section \<open>The run orchestration\<close>

datatype reduce_opt = Auto | Flag bool
  \<comment> \<open>\<^verbatim>\<open>reduce_simulation: Literal["auto", True, False]\<close>\<close>

definition status_line :: "string option \<Rightarrow> string" where
  "status_line st = ''Mode solver status: '' @ fmt st"

definition log_status :: "string \<Rightarrow> bool \<Rightarrow> string option \<Rightarrow> unit io" where
  "log_status log_level verbose st =
     io_bind (emit (LogMsg log_level (status_line st))) (\<lambda>_.
     if verbose then emit (ConsoleLog (status_line st)) else io_return ())"

definition terminal :: "string option \<Rightarrow> bool" where
  "terminal st \<longleftrightarrow> st \<in> {Some ''success'', Some ''error'', Some ''diverged'', Some ''deleted''}"

text \<open>The loop of \<^verbatim>\<open>run\<close> that waits for the task to finish. It has no bound: it returns
  \<open>None\<close> when the server never reports a terminal status.\<close>

partial_function (option) wait_for_task ::
  "env \<Rightarrow> ModeSolverTask \<Rightarrow> string \<Rightarrow> bool \<Rightarrow> string option \<Rightarrow> string option \<Rightarrow> world
     \<Rightarrow> ((exn + string option) \<times> world) option" where
  "wait_for_task E task log_level verbose prev_status st w =
     (if terminal st then Some (Inr st, w)
      else
        (case io_bind (if st \<noteq> prev_status then log_status log_level verbose st
                       else io_return ()) (\<lambda>_.
              io_bind (emit Sleep) (\<lambda>_.
              get_info E task)) w of
           (Inl e, w') \<Rightarrow> Some (Inl e, w')
         | (Inr info, w') \<Rightarrow>
             wait_for_task E task log_level verbose
               (if st \<noteq> prev_status then st else prev_status) (status info) w'))"

text \<open>\<^verbatim>\<open>run\<close> up to \<^verbatim>\<open>task.submit()\<close>: the task is created, uploaded and submitted.\<close>

definition run_submit ::
  "env \<Rightarrow> ModeSolver \<Rightarrow> string \<Rightarrow> string \<Rightarrow> string \<Rightarrow> bool \<Rightarrow> callback \<Rightarrow> reduce_opt
     \<Rightarrow> ModeSolverTask io" where
  "run_submit E ms task_name mode_solver_name folder_name verbose progress_callback_upload
       reduce_simulation =
     (let contains_custom =
            list_ex (is_AbstractCustomMedium E) (scene_mediums E (simulation E ms));
          reduce = (case reduce_simulation of Auto \<Rightarrow> contains_custom | Flag b \<Rightarrow> b)
      in
     io_bind (if reduce_simulation = Auto \<and> reduce
              then emit (LogMsg ''WARNING''
                     (''The associated 'Simulation' object contains custom mediums. It will be '' @
                      ''automatically restricted to the mode solver plane to reduce data for uploading. '' @
                      ''To force uploading the original 'Simulation' object use 'reduce_simulation=False'.'' @
                      '' Setting 'reduce_simulation=True' will force simulation reduction in all cases and'' @
                      '' silence this warning.''))
              else io_return ()) (\<lambda>_.
     io_bind (create E (if reduce then reduced_simulation_copy E ms else ms)
                task_name mode_solver_name folder_name) (\<lambda>task.
     io_bind (if verbose
              then emit (ConsoleLog (''Mode solver created with task_id='' @ [CHR 0x27] @ fmt (task_id task) @
                                     [CHR 0x27] @ '', solver_id='' @ [CHR 0x27] @ fmt (solver_id task) @
                                     [CHR 0x27] @ ''.''))
              else io_return ()) (\<lambda>_.
     io_bind (upload E task verbose progress_callback_upload) (\<lambda>_.
     io_bind (submit E task) (\<lambda>_.
     io_return task))))))"

text \<open>\<^verbatim>\<open>run\<close> from the comment \<^verbatim>\<open># Wait for task to finish\<close> on: the loop, and what follows
  it. \<^verbatim>\<open>None\<close> is returned for a terminal status that is neither \<^verbatim>\<open>error\<close> nor
  \<^verbatim>\<open>success\<close>.\<close>

definition run_finish ::
  "env \<Rightarrow> ModeSolverTask \<Rightarrow> path \<Rightarrow> bool \<Rightarrow> callback \<Rightarrow> string option
     \<Rightarrow> ModeSolverData option io" where
  "run_finish E task results_file verbose progress_callback_download st =
     (if st = Some ''error'' then io_raise (WebError ''Error running mode solver.'' None)
      else
        io_bind (log_status (if verbose then ''DEBUG'' else ''INFO'') verbose st) (\<lambda>_.
        if st \<noteq> Some ''success'' then io_return None
        else
          io_bind (get_result E task results_file verbose progress_callback_download) (\<lambda>d.
          io_return (Some d))))"

definition run_wait ::
  "env \<Rightarrow> ModeSolverTask \<Rightarrow> path \<Rightarrow> bool \<Rightarrow> callback \<Rightarrow> world
     \<Rightarrow> ((exn + ModeSolverData option) \<times> world) option" where
  "run_wait E task results_file verbose progress_callback_download w =
     (case wait_for_task E task (if verbose then ''DEBUG'' else ''INFO'') verbose
             (Some ''draft'') (status task) w of
        None \<Rightarrow> None
      | Some (Inl e, w') \<Rightarrow> Some (Inl e, w')
      | Some (Inr st, w') \<Rightarrow>
          Some (run_finish E task results_file verbose progress_callback_download st w'))"

definition run ::
  "env \<Rightarrow> ModeSolver \<Rightarrow> string \<Rightarrow> string \<Rightarrow> string \<Rightarrow> path \<Rightarrow> bool \<Rightarrow> callback \<Rightarrow> callback
     \<Rightarrow> reduce_opt \<Rightarrow> world \<Rightarrow> ((exn + ModeSolverData option) \<times> world) option" where
  "run E ms task_name mode_solver_name folder_name results_file verbose
       progress_callback_upload progress_callback_download reduce_simulation w =
     (case run_submit E ms task_name mode_solver_name folder_name verbose
             progress_callback_upload reduce_simulation w of
        (Inl e, w') \<Rightarrow> Some (Inl e, w')
      | (Inr task, w') \<Rightarrow>
          run_wait E task results_file verbose progress_callback_download w')"

section \<open>Notions used in the statements\<close>

text \<open>An action keeps the temporary files when the files that exist after it, whatever
  its outcome, are those that existed before.\<close>

definition keeps_tmp :: "'a io \<Rightarrow> bool" where
  "keeps_tmp m \<longleftrightarrow> (\<forall>w. tmpfiles (snd (m w)) = tmpfiles w)"

text \<open>\<open>polled E task n\<close>: what \<^verbatim>\<open>task.get_info().status\<close> evaluates to (or raises) when the
  request is answered by answer number \<open>n\<close> of the outside.\<close>

definition polled :: "env \<Rightarrow> ModeSolverTask \<Rightarrow> nat \<Rightarrow> exn + string option" where
  "polled E task n =
     map_sum id status
       (fst (get_info E task \<lparr>trace = [], tick = n, tmpfiles = [], data_raw = (\<lambda>_. None)\<rparr>))"

text \<open>The events of the waiting loop over the statuses \<open>ss\<close> it sees before the terminal
  one, \<open>prev\<close> being the status seen before them.\<close>

fun poll_events ::
  "string \<Rightarrow> bool \<Rightarrow> string \<Rightarrow> string option \<Rightarrow> string option list \<Rightarrow> event list" where
  "poll_events lvl v url prev [] = []"
| "poll_events lvl v url prev (s # ss) =
     (if s \<noteq> prev
      then LogMsg lvl (status_line s) # (if v then [ConsoleLog (status_line s)] else [])
      else []) @ [Sleep, HttpGet url] @ poll_events lvl v url s ss"

text \<open>Readings of a trace: the messages given to \<^verbatim>\<open>log.log\<close>, the status lines given to
  \<^verbatim>\<open>console.log\<close>, the URLs of the GET requests, and the downloads.\<close>

fun log_line :: "event \<Rightarrow> string option" where
  "log_line (LogMsg l m) = Some m"
| "log_line _ = None"

fun console_status_line :: "event \<Rightarrow> string option" where
  "console_status_line (ConsoleLog m) =
     (if take 20 m = ''Mode solver status: '' then Some m else None)"
| "console_status_line _ = None"

fun get_url :: "event \<Rightarrow> string option" where
  "get_url (HttpGet u) = Some u"
| "get_url _ = None"

fun is_download :: "event \<Rightarrow> bool" where
  "is_download (DownloadFile _ _ _ _ _) = True"
| "is_download (DownloadGzFile _ _ _ _ _) = True"
| "is_download _ = False"

definition log_lines :: "event list \<Rightarrow> string list" where
  "log_lines evs = List.map_filter log_line evs"

definition console_status_lines :: "event list \<Rightarrow> string list" where
  "console_status_lines evs = List.map_filter console_status_line evs"

definition get_urls :: "event list \<Rightarrow> string list" where
  "get_urls evs = List.map_filter get_url evs"

text \<open>The distinct status changes of a sequence of observed statuses, the status before
  the first observation being \<^verbatim>\<open>draft\<close>: one entry for each run of equal values.\<close>

definition status_changes :: "string option list \<Rightarrow> string option list" where
  "status_changes sts = tl (remdups_adj (Some ''draft'' # sts))"

text \<open>An action emits only events that satisfy \<open>P\<close>.\<close>

definition emits :: "(event \<Rightarrow> bool) \<Rightarrow> 'a io \<Rightarrow> bool" where
  "emits P m \<longleftrightarrow> (\<forall>w. \<exists>evs. trace (snd (m w)) = trace w @ evs \<and> list_all P evs)"

text \<open>Events that are neither a line of the log, nor a status line on the console, nor a
  GET request.\<close>

definition quiet :: "event \<Rightarrow> bool" where
  "quiet ev \<longleftrightarrow> log_line ev = None \<and> console_status_line ev = None \<and> get_url ev = None"

text \<open>An action keeps the cache when it leaves \<^verbatim>\<open>_cached_properties["data_raw"]\<close> of every
  payload as it was.\<close>

definition keeps_cache :: "'a io \<Rightarrow> bool" where
  "keeps_cache m \<longleftrightarrow> (\<forall>w. data_raw (snd (m w)) = data_raw w)"

subsection \<open>A sample environment\<close>

text \<open>A server and a file system on which every call succeeds; the task is reported
  \<^verbatim>\<open>running\<close> twice and then \<^verbatim>\<open>success\<close>.\<close>

fun sample_str :: "pyval \<Rightarrow> string option" where
  "sample_str (PStr s) = Some s"
| "sample_str _ = None"

definition sample_resp :: "string \<Rightarrow> pyval" where
  "sample_resp st =
     PDict [(''refId'', PStr ''t1''), (''id'', PStr ''s1''), (''status'', PStr st),
            (''fileType'', PStr ''Gz''), (''solverVersion'', PStr ''v1'')]"

definition sample_env :: env where
  "sample_env = \<lparr>
     version = ''2.5.0'',
     enable_caching = True,
     str_validator = sample_str,
     float_validator = Some,
     datetime_validator = Some,
     ModeSolver_validator = (\<lambda>_. None),
     scene_mediums = (\<lambda>_. []),
     is_AbstractCustomMedium = (\<lambda>_. False),
     reduced_simulation_copy = (\<lambda>m. m),
     validate_pre_upload = (\<lambda>_. None),
     sim_validate_pre_upload = (\<lambda>_ _. None),
     copy = (\<lambda>m. m),
     simulation = (\<lambda>m. m),
     to_mode_solver_monitor = (\<lambda>_ _. 0),
     data_copy_monitor = (\<lambda>d _. d),
     symmetry_expanded = (\<lambda>_ d. case d of None \<Rightarrow> 0 | Some x \<Rightarrow> x),
     Folder_get_res = (\<lambda>_. Inr ''folder-1''),
     http_post_res = (\<lambda>_. Inr (sample_resp ''draft'')),
     http_get_res = (\<lambda>n. Inr (sample_resp (if n < 9 then ''running'' else ''success''))),
     http_put_res = (\<lambda>_. Inr PNone),
     http_delete_res = (\<lambda>_. Inr PNone),
     to_hdf5_gz_res = (\<lambda>_. Inr ()),
     upload_file_res = (\<lambda>_. Inr ()),
     download_file_res = (\<lambda>_. Inr (UserPath ''out'')),
     download_gz_file_res = (\<lambda>_. Inr (UserPath ''out'')),
     from_hdf5_gz_res = (\<lambda>_. Inr 5),
     from_hdf5_res = (\<lambda>_. Inr 6),
     dict_from_json_res = (\<lambda>_. Inr [(''plane'', PStr ''xy'')]),
     sim_from_json_res = (\<lambda>_. Inr 8),
     parse_obj_res = (\<lambda>_. Inr 7),
     to_file_res = (\<lambda>_. Inr ()),
     data_from_hdf5_res = (\<lambda>_. Inr 9) \<rparr>"

definition sample_world :: world where
  "sample_world = \<lparr>trace = [], tick = 0, tmpfiles = [], data_raw = (\<lambda>_. None)\<rparr>"

definition sample_task :: ModeSolverTask where
  "sample_task = \<lparr>
     task_id = Some ''t1'', solver_id = Some ''s1'', real_flex_unit = PNone, created_at = PNone,
     status = Some ''draft'', file_type = Some ''Gz'', mode_solver = Some 3,
     extra = [(''solverVersion'', PStr ''v1'')] \<rparr>"

text \<open>The same server, reporting \<^verbatim>\<open>running\<close> once and then the status \<open>st\<close>.\<close>

definition sample_env_ending :: "string \<Rightarrow> env" where
  "sample_env_ending st =
     sample_env\<lparr>http_get_res := (\<lambda>n. Inr (sample_resp (if n < 8 then ''running'' else st)))\<rparr>"

text \<open>The world once \<^verbatim>\<open>run\<close> has created, uploaded and submitted the sample task.\<close>

definition sample_submitted :: world where
  "sample_submitted =
     snd (run_submit sample_env 3 ''Untitled'' ''mode_solver'' ''Mode Solver'' True None Auto
            sample_world)"

text \<open>The sample environment with a payload that fails its validation, and with given
  answers of the two result downloads.\<close>

definition sample_env_invalid :: env where
  "sample_env_invalid =
     sample_env\<lparr>validate_pre_upload := (\<lambda>_. Some (OtherException ''SetupError''))\<rparr>"


section \<open>Temporary files are released\<close>

lemma fresh_tmp_ge: "p \<in> set fs \<Longrightarrow> tmp_id p \<le> fresh_tmp fs"
  unfolding fresh_tmp_def by (induction fs) auto

lemma fresh_tmp_notin: "TempPath (fresh_tmp fs) sfx \<notin> set fs"
  using fresh_tmp_ge[of "TempPath (fresh_tmp fs) sfx" fs] by auto



lemma keeps_tmp_emit: "keeps_tmp (emit ev)"
  by (simp add: keeps_tmp_def emit_def)










section \<open>Abort\<close>


section \<open>The waiting loop and the run\<close>

lemma get_info_fst: "fst (get_info E task w) = fst (get_info E task (w'\<lparr>tick := tick w\<rparr>))"
  by (simp add: get_info_def io_bind_def call_def lift_def split: sum.splits)

lemma get_info_polled:
  "map_sum id status (fst (get_info E task w)) = polled E task (tick w)"
  unfolding polled_def
  by (subst get_info_fst[of E task w "\<lparr>trace = [], tick = 0, tmpfiles = [], data_raw = (\<lambda>_. None)\<rparr>"]) simp

lemma get_info_snd:
  "snd (get_info E task w) = w\<lparr>trace := trace w @ [HttpGet (task_url task)], tick := Suc (tick w)\<rparr>"
  by (simp add: get_info_def io_bind_def call_def lift_def split: sum.splits)

lemma loop_step:
  assumes "\<not> terminal st" and "polled E task (tick w) = Inr p"
  shows "wait_for_task E task lvl v prev st w =
         wait_for_task E task lvl v st p
           (w\<lparr>trace := trace w @ poll_events lvl v (task_url task) prev [st], tick := Suc (tick w)\<rparr>)"
proof -
  define w1 where "w1 = w\<lparr>trace := trace w @
      (if st \<noteq> prev then LogMsg lvl (status_line st) # (if v then [ConsoleLog (status_line st)] else []) else []) @ [Sleep]\<rparr>"
  have pre: "io_bind (if st \<noteq> prev then log_status lvl v st else io_return ()) (\<lambda>_.
              io_bind (emit Sleep) (\<lambda>_. get_info E task)) w = get_info E task w1"
    by (simp add: io_bind_def log_status_def emit_def io_return_def w1_def)
  have t1: "tick w1 = tick w" by (simp add: w1_def)
  from assms(2) obtain info where info: "fst (get_info E task w1) = Inr info" "status info = p"
    using get_info_polled[of E task w1] t1
    by (cases "fst (get_info E task w1)") auto
  have gi: "get_info E task w1 = (Inr info, w1\<lparr>trace := trace w1 @ [HttpGet (task_url task)], tick := Suc (tick w1)\<rparr>)"
    using info(1) get_info_snd[of E task w1] by (cases "get_info E task w1") simp
  have w': "w1\<lparr>trace := trace w1 @ [HttpGet (task_url task)], tick := Suc (tick w1)\<rparr>
        = w\<lparr>trace := trace w @ poll_events lvl v (task_url task) prev [st], tick := Suc (tick w)\<rparr>"
    by (simp add: w1_def)
  have prev': "(if st \<noteq> prev then st else prev) = st" by simp
  show ?thesis
    apply (subst wait_for_task.simps)
    apply (simp only: assms(1) if_False pre gi prod.case sum.case prev' info(2) w')
    done
qed

lemma wait_for_task_polls:
  assumes "\<forall>i<length ps. polled E task (tick w + i) = Inr (ps ! i)"
    and "\<forall>s\<in>set (butlast (st # ps)). \<not> terminal s"
    and "terminal (last (st # ps))"
  shows "wait_for_task E task lvl v prev st w =
           Some (Inr (last (st # ps)),
                 w\<lparr>trace := trace w @ poll_events lvl v (task_url task) prev (butlast (st # ps)),
                   tick := tick w + length ps\<rparr>)"
  using assms
proof (induction ps arbitrary: st prev w)
  case Nil
  then show ?case
    by (subst wait_for_task.simps) simp
next
  case (Cons p ps)
  have nt: "\<not> terminal st" using Cons.prems(2) by simp
  have p0: "polled E task (tick w) = Inr p" using Cons.prems(1) by force
  define w' where "w' = w\<lparr>trace := trace w @ poll_events lvl v (task_url task) prev [st], tick := Suc (tick w)\<rparr>"
  have a1: "\<forall>i<length ps. polled E task (tick w' + i) = Inr (ps ! i)"
  proof (intro allI impI)
    fix i assume "i < length ps"
    then have "polled E task (tick w + Suc i) = Inr ((p # ps) ! Suc i)"
      using Cons.prems(1) by (metis Suc_less_eq length_Cons)
    then show "polled E task (tick w' + i) = Inr (ps ! i)" by (simp add: w'_def)
  qed
  have a2: "\<forall>s\<in>set (butlast (p # ps)). \<not> terminal s" using Cons.prems(2) by simp
  have a3: "terminal (last (p # ps))" using Cons.prems(3) by simp
  have "wait_for_task E task lvl v prev st w = wait_for_task E task lvl v st p w'"
    unfolding w'_def by (rule loop_step[OF nt p0])
  also have "\<dots> = Some (Inr (last (p # ps)),
                 w'\<lparr>trace := trace w' @ poll_events lvl v (task_url task) st (butlast (p # ps)),
                   tick := tick w' + length ps\<rparr>)"
    by (rule Cons.IH[OF a1 a2 a3])
  also have "\<dots> = Some (Inr (last (st # p # ps)),
                 w\<lparr>trace := trace w @ poll_events lvl v (task_url task) prev (butlast (st # p # ps)),
                   tick := tick w + length (p # ps)\<rparr>)"
    by (simp add: w'_def)
  finally show ?case .
qed



subsection \<open>What an action emits\<close>

lemma emitsI:
  assumes "\<And>w. \<exists>evs. trace (snd (m w)) = trace w @ evs \<and> list_all P evs"
  shows "emits P m"
  using assms by (simp add: emits_def)

lemma emitsD:
  assumes "emits P m"
  obtains evs where "trace (snd (m w)) = trace w @ evs" and "list_all P evs"
  using assms unfolding emits_def by blast

lemma emits_return: "emits P (io_return x)"
  by (simp add: emits_def io_return_def)

lemma emits_raise: "emits P (io_raise e)"
  by (simp add: emits_def io_raise_def)

lemma emits_lift: "emits P (lift r)"
  by (simp add: emits_def lift_def)

lemma emits_raise_if: "emits P (raise_if r)"
  by (cases r) (simp_all add: raise_if_def emits_return emits_raise)

lemma emits_emit: "P ev \<Longrightarrow> emits P (emit ev)"
  by (simp add: emits_def emit_def)

lemma emits_call: "P ev \<Longrightarrow> emits P (call ev f)"
  by (simp add: emits_def call_def)

lemma emits_set_data_raw: "emits P (set_data_raw ms d)"
  by (simp add: emits_def set_data_raw_def)

lemma emits_ms_data: "emits P (ms_data E ms)"
  by (simp add: emits_def ms_data_def)

lemma emits_mkstemp: "(\<And>p. P (Mkstemp sfx p)) \<Longrightarrow> emits P (mkstemp sfx)"
  by (simp add: emits_def mkstemp_def Let_def)

lemma emits_os_close: "P (OsClose p) \<Longrightarrow> emits P (os_close p)"
  by (simp add: os_close_def emits_emit)

lemma emits_os_unlink: "P (OsUnlink p) \<Longrightarrow> emits P (os_unlink p)"
  by (simp add: emits_def os_unlink_def)

lemma emits_bind:
  assumes "emits P m" and "\<And>x. emits P (f x)"
  shows "emits P (io_bind m f)"
proof (rule emitsI)
  fix w
  obtain r w1 where mw: "m w = (r, w1)" by (cases "m w")
  from emitsD[OF assms(1), of w] mw obtain e1 where
    e1: "trace w1 = trace w @ e1" "list_all P e1" by auto
  show "\<exists>evs. trace (snd (io_bind m f w)) = trace w @ evs \<and> list_all P evs"
  proof (cases r)
    case (Inl e)
    then show ?thesis using mw e1 by (simp add: io_bind_def)
  next
    case (Inr x)
    from emitsD[OF assms(2), of x w1] obtain e2 where
      e2: "trace (snd (f x w1)) = trace w1 @ e2" "list_all P e2" by auto
    have "trace (snd (io_bind m f w)) = trace w @ (e1 @ e2)"
      using Inr mw e1 e2 by (simp add: io_bind_def)
    then show ?thesis using e1 e2 by (metis list_all_append)
  qed
qed

lemma emits_try_except:
  assumes "emits P body" and "\<And>e. emits P (h e)"
  shows "emits P (try_except body c h)"
proof (rule emitsI)
  fix w
  obtain r w1 where mw: "body w = (r, w1)" by (cases "body w")
  from emitsD[OF assms(1), of w] mw obtain e1 where
    e1: "trace w1 = trace w @ e1" "list_all P e1" by auto
  show "\<exists>evs. trace (snd (try_except body c h w)) = trace w @ evs \<and> list_all P evs"
  proof (cases r)
    case (Inr x)
    then show ?thesis using mw e1 by (simp add: try_except_def)
  next
    case (Inl e)
    show ?thesis
    proof (cases "c e")
      case False
      then show ?thesis using Inl mw e1 by (simp add: try_except_def)
    next
      case True
      from emitsD[OF assms(2), of e w1] obtain e2 where
        e2: "trace (snd (h e w1)) = trace w1 @ e2" "list_all P e2" by auto
      have "trace (snd (try_except body c h w)) = trace w @ (e1 @ e2)"
        using Inl True mw e1 e2 by (simp add: try_except_def)
      then show ?thesis using e1 e2 by (metis list_all_append)
    qed
  qed
qed

lemma emits_try_finally:
  assumes "emits P body" and "emits P fin"
  shows "emits P (try_finally body fin)"
proof (rule emitsI)
  fix w
  obtain r w1 where mw: "body w = (r, w1)" by (cases "body w")
  from emitsD[OF assms(1), of w] mw obtain e1 where
    e1: "trace w1 = trace w @ e1" "list_all P e1" by auto
  obtain r2 w2 where fw: "fin w1 = (r2, w2)" by (cases "fin w1")
  from emitsD[OF assms(2), of w1] fw obtain e2 where
    e2: "trace w2 = trace w1 @ e2" "list_all P e2" by auto
  have "trace (snd (try_finally body fin w)) = trace w @ (e1 @ e2)"
    using mw fw e1 e2 by (cases r2) (simp_all add: try_finally_def)
  then show "\<exists>evs. trace (snd (try_finally body fin w)) = trace w @ evs \<and> list_all P evs"
    using e1 e2 by (metis list_all_append)
qed

lemmas emits_intros =
  emits_bind emits_try_except emits_try_finally emits_return emits_raise emits_lift
  emits_raise_if emits_emit emits_call emits_set_data_raw emits_ms_data emits_mkstemp
  emits_os_close emits_os_unlink

lemma get_result_quiet: "emits quiet (get_result E self to_file verbose cb)"
  unfolding get_result_def
  by (cases "mode_solver self")
     (auto intro!: emits_intros simp: quiet_def MODESOLVER_RESULT_GZ_def split: if_splits)

lemma run_submit_no_get:
  "emits (\<lambda>ev. get_url ev = None \<and> \<not> is_download ev)
     (run_submit E ms tn msn fn v cbu red)"
  unfolding run_submit_def create_def upload_def submit_def Let_def
  by (auto intro!: emits_intros split: option.splits)


subsection \<open>Readings of the loop's events\<close>

lemma map_filter_append: "List.map_filter f (xs @ ys) = List.map_filter f xs @ List.map_filter f ys"
  by (simp add: List.map_filter_def)

lemma take_status_line [simp]: "take 20 (status_line s) = ''Mode solver status: ''"
  by (simp add: status_line_def)

lemma remdups_adj_head: "remdups_adj (x # xs) = x # tl (remdups_adj (x # xs))"
  by (cases xs) auto

lemma map_remdups_adj_head:
  "map f (remdups_adj (x # xs)) = f x # map f (tl (remdups_adj (x # xs)))"
proof -
  obtain r where r: "remdups_adj (x # xs) = x # r"
    using remdups_adj_head[of x xs] by blast
  show ?thesis unfolding r by simp
qed

lemma tl_remdups_adj_Cons:
  "tl (remdups_adj (p # s # ss)) =
     (if s = p then tl (remdups_adj (s # ss)) else s # tl (remdups_adj (s # ss)))"
  using remdups_adj_head[of s ss] by auto

lemma log_lines_poll_events:
  "log_lines (poll_events lvl v url prev ss) = map status_line (tl (remdups_adj (prev # ss)))"
proof (induction ss arbitrary: prev)
  case Nil
  then show ?case by (simp add: log_lines_def)
next
  case (Cons s ss)
  have "log_lines (poll_events lvl v url prev (s # ss)) =
        (if s = prev then [] else [status_line s]) @ log_lines (poll_events lvl v url s ss)"
    by (simp add: log_lines_def map_filter_append List.map_filter_simps)
  moreover have "map status_line (tl (remdups_adj (prev # s # ss))) =
        (if s = prev then [] else [status_line s]) @ map status_line (tl (remdups_adj (s # ss)))"
    by (subst tl_remdups_adj_Cons) (simp add: map_remdups_adj_head[of status_line s ss])
  ultimately show ?case
    by (simp only: Cons.IH)
qed

lemma console_lines_poll_events:
  "console_status_lines (poll_events lvl v url prev ss) =
     (if v then map status_line (tl (remdups_adj (prev # ss))) else [])"
proof (induction ss arbitrary: prev)
  case Nil
  then show ?case by (simp add: console_status_lines_def)
next
  case (Cons s ss)
  have "console_status_lines (poll_events lvl v url prev (s # ss)) =
        (if s \<noteq> prev \<and> v then [status_line s] else [])
          @ console_status_lines (poll_events lvl v url s ss)"
    by (simp add: console_status_lines_def map_filter_append List.map_filter_simps)
  moreover have "(if v then map status_line (tl (remdups_adj (prev # s # ss))) else []) =
        (if s \<noteq> prev \<and> v then [status_line s] else [])
          @ (if v then map status_line (tl (remdups_adj (s # ss))) else [])"
    by (subst tl_remdups_adj_Cons) (simp add: map_remdups_adj_head[of status_line s ss])
  ultimately show ?case
    by (simp only: Cons.IH)
qed

lemma get_urls_poll_events:
  "get_urls (poll_events lvl v url prev ss) = replicate (length ss) url"
  by (induction ss arbitrary: prev)
     (simp_all add: get_urls_def map_filter_append List.map_filter_simps)

lemma no_download_poll_events: "\<not> list_ex is_download (poll_events lvl v url prev ss)"
  by (induction ss arbitrary: prev) simp_all

lemma changes_snoc:
  assumes "\<forall>s\<in>set ss. \<not> terminal s" and "terminal t"
  shows "status_changes (ss @ [t]) = tl (remdups_adj (Some ''draft'' # ss)) @ [t]"
proof -
  have nd: "\<not> terminal (Some ''draft'')" by (simp add: terminal_def)
  have "last (Some ''draft'' # ss) \<in> set (Some ''draft'' # ss)"
    by (rule last_in_set) simp
  then have "\<not> terminal (last (Some ''draft'' # ss))"
    using assms(1) nd by auto
  then have ne: "last (Some ''draft'' # ss) \<noteq> hd [t]"
    using assms(2) by auto
  have "remdups_adj ((Some ''draft'' # ss) @ [t]) = remdups_adj (Some ''draft'' # ss) @ remdups_adj [t]"
    by (rule remdups_adj_append') (use ne in blast)
  moreover obtain r where r: "remdups_adj (Some ''draft'' # ss) = Some ''draft'' # r"
    using remdups_adj_head[of "Some ''draft''" ss] by blast
  moreover have "remdups_adj [t] = [t]" by simp
  ultimately show ?thesis
    by (simp add: status_changes_def del: remdups_adj.simps)
qed


lemma keeps_cache_basic:
  "keeps_cache (io_return x)" "keeps_cache (io_raise e)" "keeps_cache (lift r)"
  "keeps_cache (emit ev)" "keeps_cache (call ev f)" "keeps_cache (mkstemp sfx)"
  "keeps_cache (os_close p)" "keeps_cache (os_unlink p)"
  by (simp_all add: keeps_cache_def io_return_def io_raise_def lift_def emit_def call_def
        mkstemp_def os_close_def os_unlink_def Let_def)

lemma keeps_cache_raise_if: "keeps_cache (raise_if r)"
  by (cases r) (simp_all add: raise_if_def keeps_cache_basic)

lemma keeps_cache_bind:
  assumes "keeps_cache m" and "\<And>x. keeps_cache (f x)"
  shows "keeps_cache (io_bind m f)"
  unfolding keeps_cache_def
proof
  fix w
  obtain r w1 where mw: "m w = (r, w1)" by (cases "m w")
  then have "data_raw w1 = data_raw w"
    using assms(1) by (metis keeps_cache_def snd_conv)
  then show "data_raw (snd (io_bind m f w)) = data_raw w"
    using mw assms(2) by (cases r) (simp_all add: io_bind_def keeps_cache_def)
qed

lemma keeps_cache_try_finally:
  assumes "keeps_cache body" and "keeps_cache fin"
  shows "keeps_cache (try_finally body fin)"
  unfolding keeps_cache_def
proof
  fix w
  obtain r w1 where mw: "body w = (r, w1)" by (cases "body w")
  then have 1: "data_raw w1 = data_raw w"
    using assms(1) by (metis keeps_cache_def snd_conv)
  obtain r2 w2 where fw: "fin w1 = (r2, w2)" by (cases "fin w1")
  then have 2: "data_raw w2 = data_raw w1"
    using assms(2) by (metis keeps_cache_def snd_conv)
  show "data_raw (snd (try_finally body fin w)) = data_raw w"
    using mw fw 1 2 by (cases r2) (simp_all add: try_finally_def)
qed

lemma run_submit_keeps_cache: "keeps_cache (run_submit E ms tn msn fn v cbu red)"
  unfolding run_submit_def create_def upload_def submit_def Let_def
  by (auto intro!: keeps_cache_bind keeps_cache_try_finally keeps_cache_basic
        keeps_cache_raise_if split: option.splits)

lemma quiet_readings:
  "list_all quiet evs \<Longrightarrow> log_lines evs = [] \<and> console_status_lines evs = [] \<and> get_urls evs = []"
  by (induction evs)
     (simp_all add: quiet_def log_lines_def console_status_lines_def get_urls_def
        List.map_filter_simps)

lemma run_eq:
  assumes "run_submit E ms tn msn fn v cbu red w0 = (Inr task, w)"
    and "\<forall>i<length ps. polled E task (tick w + i) = Inr (ps ! i)"
    and "\<forall>s\<in>set (butlast (status task # ps)). \<not> terminal s"
    and "terminal (last (status task # ps))"
  shows "run E ms tn msn fn rf v cbu cbd red w0 =
           Some (run_finish E task rf v cbd (last (status task # ps))
             (w\<lparr>trace := trace w @ poll_events (if v then ''DEBUG'' else ''INFO'') v (task_url task)
                                  (Some ''draft'') (butlast (status task # ps)),
                tick := tick w + length ps\<rparr>))"
  unfolding run_def run_wait_def assms(1)
  by (simp only: prod.case sum.case wait_for_task_polls[OF assms(2,3,4)] option.case)

lemma run_finish_error:
  "run_finish E task rf v cb (Some ''error'') w = (Inl (WebError ''Error running mode solver.'' None), w)"
  by (simp add: run_finish_def io_raise_def)

lemma run_finish_no_result:
  assumes "t \<noteq> Some ''error''" and "t \<noteq> Some ''success''"
  shows "run_finish E task rf v cb t w =
           (Inr None, w\<lparr>trace := trace w @ LogMsg (if v then ''DEBUG'' else ''INFO'') (status_line t)
                                  # (if v then [ConsoleLog (status_line t)] else [])\<rparr>)"
  using assms by (simp add: run_finish_def io_bind_def log_status_def emit_def io_return_def)

lemma run_finish_success:
  "\<exists>r w' evs. run_finish E task rf v cb (Some ''success'') w = (r, w') \<and>
     trace w' = trace w @ LogMsg (if v then ''DEBUG'' else ''INFO'') (status_line (Some ''success''))
                  # (if v then [ConsoleLog (status_line (Some ''success''))] else []) @ evs \<and>
     list_all quiet evs"
proof -
  define w2 where "w2 = w\<lparr>trace := trace w @ LogMsg (if v then ''DEBUG'' else ''INFO'') (status_line (Some ''success''))
                                  # (if v then [ConsoleLog (status_line (Some ''success''))] else [])\<rparr>"
  let ?m = "io_bind (get_result E task rf v cb) (\<lambda>d. io_return (Some d))"
  have eq: "run_finish E task rf v cb (Some ''success'') w = ?m w2"
    by (simp add: run_finish_def io_bind_def log_status_def emit_def io_return_def w2_def)
  have "emits quiet ?m"
    by (intro emits_bind get_result_quiet emits_return)
  then obtain evs where evs: "trace (snd (?m w2)) = trace w2 @ evs" "list_all quiet evs"
    by (rule emitsD)
  show ?thesis
    using eq evs by (cases "?m w2") (auto simp: w2_def)
qed


lemma readings_append:
  "log_lines (xs @ ys) = log_lines xs @ log_lines ys"
  "console_status_lines (xs @ ys) = console_status_lines xs @ console_status_lines ys"
  "get_urls (xs @ ys) = get_urls xs @ get_urls ys"
  by (simp_all add: log_lines_def console_status_lines_def get_urls_def map_filter_append)

lemma readings_final:
  "log_lines (LogMsg l (status_line t) # (if v then [ConsoleLog (status_line t)] else [])) = [status_line t]"
  "console_status_lines (LogMsg l (status_line t) # (if v then [ConsoleLog (status_line t)] else []))
     = (if v then [status_line t] else [])"
  "get_urls (LogMsg l (status_line t) # (if v then [ConsoleLog (status_line t)] else [])) = []"
  by (simp_all add: log_lines_def console_status_lines_def get_urls_def List.map_filter_simps)

lemma run_readings:
  assumes "run_submit E ms tn msn fn v cbu red w0 = (Inr task, w)"
    and "\<forall>i<length ps. polled E task (tick w + i) = Inr (ps ! i)"
    and "\<forall>s\<in>set (butlast (status task # ps)). \<not> terminal s"
    and "terminal (last (status task # ps))"
  shows "\<exists>r w'. run E ms tn msn fn rf v cbu cbd red w0 = Some (r, w') \<and>
           get_urls (drop (length (trace w)) (trace w')) = replicate (length ps) (task_url task) \<and>
           log_lines (drop (length (trace w)) (trace w')) =
             map status_line
               (if last (status task # ps) = Some ''error''
                then butlast (status_changes (status task # ps))
                else status_changes (status task # ps)) \<and>
           console_status_lines (drop (length (trace w)) (trace w')) =
             (if v then
                map status_line
                  (if last (status task # ps) = Some ''error''
                   then butlast (status_changes (status task # ps))
                   else status_changes (status task # ps))
              else [])"
proof -
  define ss where "ss = butlast (status task # ps)"
  define t where "t = last (status task # ps)"
  define lvl where "lvl = (if v then ''DEBUG'' else ''INFO'')"
  define pe where "pe = poll_events lvl v (task_url task) (Some ''draft'') ss"
  define w1 where "w1 = w\<lparr>trace := trace w @ pe, tick := tick w + length ps\<rparr>"
  define C where "C = tl (remdups_adj (Some ''draft'' # ss))"
  have sts: "status task # ps = ss @ [t]"
    by (simp add: ss_def t_def)
  have len: "length ss = length ps"
    by (simp add: ss_def)
  have ch: "status_changes (status task # ps) = C @ [t]"
    unfolding sts C_def using assms(3,4) by (intro changes_snoc) (simp_all add: ss_def t_def)
  have run: "run E ms tn msn fn rf v cbu cbd red w0 = Some (run_finish E task rf v cbd t w1)"
    using run_eq[OF assms] by (simp add: ss_def t_def lvl_def pe_def w1_def)
  have pe_log: "log_lines pe = map status_line C"
    and pe_con: "console_status_lines pe = (if v then map status_line C else [])"
    and pe_get: "get_urls pe = replicate (length ps) (task_url task)"
    by (simp_all add: pe_def C_def log_lines_poll_events console_lines_poll_events
          get_urls_poll_events len)
  have tr1: "trace w1 = trace w @ pe" by (simp add: w1_def)
  consider (error) "t = Some ''error''" | (success) "t = Some ''success''"
    | (other) "t \<noteq> Some ''error''" "t \<noteq> Some ''success''" by blast
  then show ?thesis
  proof cases
    case error
    have "run E ms tn msn fn rf v cbu cbd red w0 = Some (Inl (WebError ''Error running mode solver.'' None), w1)"
      using run error by (simp add: run_finish_error)
    moreover have "last (status task # ps) = Some ''error''"
      using error by (simp add: t_def)
    ultimately show ?thesis
      using pe_log pe_con pe_get tr1 ch by simp
  next
    case other
    have ne: "last (status task # ps) \<noteq> Some ''error''"
      using other by (simp add: t_def)
    show ?thesis
      unfolding run run_finish_no_result[OF other] lvl_def[symmetric]
      using pe_log pe_con pe_get tr1 ch ne
      by (simp add: readings_append readings_final del: log_line.simps)
  next
    case success
    have ne: "last (status task # ps) \<noteq> Some ''error''"
      using success by (simp add: t_def)
    obtain r w' evs where fin: "run_finish E task rf v cbd (Some ''success'') w1 = (r, w')"
      and tr: "trace w' = trace w1 @ LogMsg lvl (status_line (Some ''success''))
                  # (if v then [ConsoleLog (status_line (Some ''success''))] else []) @ evs"
      and q: "list_all quiet evs"
      using run_finish_success[of E task rf v cbd w1] unfolding lvl_def by blast
    have tr': "drop (length (trace w)) (trace w') =
        pe @ (LogMsg lvl (status_line t) # (if v then [ConsoleLog (status_line t)] else [])) @ evs"
      using tr tr1 success by simp
    show ?thesis
      unfolding run success fin
      using pe_log pe_con pe_get ch ne quiet_readings[OF q] success
      by (simp add: tr' log_lines_def console_status_lines_def get_urls_def
            map_filter_append List.map_filter_simps)
  qed
qed


lemma run_without_result:
  assumes "run_submit E ms tn msn fn v cbu red w0 = (Inr task, w)"
    and "\<forall>i<length ps. polled E task (tick w + i) = Inr (ps ! i)"
    and "\<forall>s\<in>set (butlast (status task # ps)). \<not> terminal s"
    and "terminal (last (status task # ps))"
    and "last (status task # ps) \<noteq> Some ''success''"
  shows "\<exists>w'. run E ms tn msn fn rf v cbu cbd red w0 =
                Some (if last (status task # ps) = Some ''error''
                      then Inl (WebError ''Error running mode solver.'' None) else Inr None, w') \<and>
              \<not> list_ex is_download (drop (length (trace w0)) (trace w')) \<and>
              data_raw w' = data_raw w0"
proof -
  define t where "t = last (status task # ps)"
  define pe where "pe = poll_events (if v then ''DEBUG'' else ''INFO'') v (task_url task)
                          (Some ''draft'') (butlast (status task # ps))"
  define w1 where "w1 = w\<lparr>trace := trace w @ pe, tick := tick w + length ps\<rparr>"
  have run: "run E ms tn msn fn rf v cbu cbd red w0 = Some (run_finish E task rf v cbd t w1)"
    using run_eq[OF assms(1-4)] by (simp add: t_def pe_def w1_def)
  obtain evs0 where evs0: "trace w = trace w0 @ evs0"
    and p0: "list_all (\<lambda>ev. get_url ev = None \<and> \<not> is_download ev) evs0"
    using emitsD[OF run_submit_no_get, of E ms tn msn fn v cbu red w0] assms(1)
    by (metis snd_conv)
  have nd0: "\<not> list_ex is_download evs0"
    using p0 by (auto simp: list_all_iff list_ex_iff)
  have nd1: "\<not> list_ex is_download pe"
    unfolding pe_def by (rule no_download_poll_events)
  have c0: "data_raw w = data_raw w0"
    using run_submit_keeps_cache[of E ms tn msn fn v cbu red] assms(1)
    by (metis keeps_cache_def snd_conv)
  have ts: "t \<noteq> Some ''success''" using assms(5) by (simp add: t_def)
  show ?thesis
  proof (cases "t = Some ''error''")
    case True
    then show ?thesis
      unfolding run t_def[symmetric]
      using evs0 nd0 nd1 c0 by (auto simp: run_finish_error w1_def list_ex_iff)
  next
    case False
    then show ?thesis
      unfolding run t_def[symmetric] run_finish_no_result[OF False ts]
      using evs0 nd0 nd1 c0 by (auto simp: w1_def list_ex_iff)
  qed
qed

subsection \<open>The sample run\<close>

lemmas sample_defs =
  run_submit_def create_def upload_def submit_def io_bind_def io_return_def
  call_def emit_def lift_def raise_if_def sample_env_def sample_world_def sample_resp_def
  ModeSolverTask_with_def ModeSolverTask_init_def field_ok_def declared_aliases_def
  mkstemp_def os_close_def os_unlink_def try_finally_def fresh_tmp_def sample_task_def
  task_url_def MODESOLVER_API_def SIM_FILE_HDF5_GZ_def MODESOLVER_GZ_def Let_def
  sample_env_ending_def

lemma sample_submit_fst:
  "fst (run_submit sample_env 3 ''Untitled'' ''mode_solver'' ''Mode Solver'' True None Auto
          sample_world) = Inr sample_task"
  by (simp add: sample_defs)

lemma sample_submit:
  "run_submit sample_env 3 ''Untitled'' ''mode_solver'' ''Mode Solver'' True None Auto
     sample_world = (Inr sample_task, sample_submitted)"
  using sample_submit_fst unfolding sample_submitted_def by (simp add: prod_eq_iff)

lemma sample_ending_submit:
  "run_submit (sample_env_ending st) 3 ''Untitled'' ''mode_solver'' ''Mode Solver'' True None Auto
     sample_world = (Inr sample_task, sample_submitted)"
  unfolding sample_submitted_def by (simp add: sample_defs)

lemma sample_submitted_tick: "tick sample_submitted = 7"
  unfolding sample_submitted_def by (simp add: sample_defs)

lemma sample_polled:
  "polled sample_env sample_task n = Inr (Some (if n < 9 then ''running'' else ''success''))"
  by (simp add: polled_def get_info_def sample_defs)

lemma sample_ending_polled:
  "polled (sample_env_ending st) sample_task n = Inr (Some (if n < 8 then ''running'' else st))"
  by (simp add: polled_def get_info_def sample_defs)

text \<open>
  Claim C1, as amended. Let \<^verbatim>\<open>run\<close> have created, uploaded and submitted the task, let the
  statuses it then observes be \<open>status task # ps\<close> (the status of the created record, then
  what each poll returns), all of them non-terminal but the last, which is terminal. Then
  \<^verbatim>\<open>run\<close> returns or raises, and after the submission
  \<^item> it has issued exactly \<open>length ps\<close> GET requests, all for the task's record: polling
    stops at the first terminal status and \<^verbatim>\<open>get_info\<close> is not called again;
  \<^item> the lines given to the log are the status lines of the distinct status changes, one
    for each run of equal consecutive values (none for a leading run of \<^verbatim>\<open>draft\<close>, the
    status the loop starts from), except that a final \<^verbatim>\<open>error\<close> gets no line: \<^verbatim>\<open>run\<close>
    raises instead;
  \<^item> the console gets the same status lines when \<^verbatim>\<open>verbose\<close> is set, and none otherwise.
\<close>

theorem polling_stops_and_logs_changes:
  assumes "run_submit E ms tn msn fn v cbu red w0 = (Inr task, w)"
    and "\<forall>i<length ps. polled E task (tick w + i) = Inr (ps ! i)"
    and "\<forall>s\<in>set (butlast (status task # ps)). \<not> terminal s"
    and "terminal (last (status task # ps))"
  shows "\<exists>r w'. run E ms tn msn fn rf v cbu cbd red w0 = Some (r, w') \<and>
           get_urls (drop (length (trace w)) (trace w')) = replicate (length ps) (task_url task) \<and>
           log_lines (drop (length (trace w)) (trace w')) =
             map status_line
               (if last (status task # ps) = Some ''error''
                then butlast (status_changes (status task # ps))
                else status_changes (status task # ps)) \<and>
           console_status_lines (drop (length (trace w)) (trace w')) =
             (if v then
                map status_line
                  (if last (status task # ps) = Some ''error''
                   then butlast (status_changes (status task # ps))
                   else status_changes (status task # ps))
              else [])"
  using assms by (rule run_readings)

text \<open>The sample run: the server reports \<^verbatim>\<open>running\<close> twice, then \<^verbatim>\<open>success\<close>; three
  polls, two status lines.\<close>

theorem polling_stops_and_logs_changes_witness:
  "\<exists>r w'. run sample_env 3 ''Untitled'' ''mode_solver'' ''Mode Solver'' (UserPath ''mode_solver.hdf5'')
             True None None Auto sample_world = Some (r, w') \<and>
          get_urls (drop (length (trace sample_submitted)) (trace w')) =
            [''tidy3d/modesolver/py/t1/s1'', ''tidy3d/modesolver/py/t1/s1'',
             ''tidy3d/modesolver/py/t1/s1''] \<and>
          log_lines (drop (length (trace sample_submitted)) (trace w')) =
            [''Mode solver status: running'', ''Mode solver status: success''] \<and>
          console_status_lines (drop (length (trace sample_submitted)) (trace w')) =
            [''Mode solver status: running'', ''Mode solver status: success'']"
proof -
  let ?ps = "[Some ''running'', Some ''running'', Some ''success'']"
  have polls: "\<forall>i<length ?ps. polled sample_env sample_task (tick sample_submitted + i) = Inr (?ps ! i)"
    by (auto simp: sample_polled sample_submitted_tick nth_Cons' less_Suc_eq numeral_3_eq_3)
  have nt: "\<forall>s\<in>set (butlast (status sample_task # ?ps)). \<not> terminal s"
    by (simp add: sample_task_def terminal_def)
  have t: "terminal (last (status sample_task # ?ps))"
    by (simp add: terminal_def)
  show ?thesis
    using polling_stops_and_logs_changes[OF sample_submit polls nt t,
            of "UserPath ''mode_solver.hdf5''" None]
    by (simp add: status_changes_def status_line_def sample_task_def task_url_def
          MODESOLVER_API_def numeral_3_eq_3)
qed

text \<open>
  The claim as first stated, one status line for every distinct status change, fails when
  the task ends in \<^verbatim>\<open>error\<close>: for the observed statuses \<^verbatim>\<open>draft\<close>, \<^verbatim>\<open>running\<close>, \<^verbatim>\<open>error\<close>
  there are two status changes, and the only status line of the whole run is the one for
  \<^verbatim>\<open>running\<close>.
\<close>

theorem error_status_is_not_logged:
  "run (sample_env_ending ''error'') 3 ''Untitled'' ''mode_solver'' ''Mode Solver''
       (UserPath ''mode_solver.hdf5'') True None None Auto sample_world =
     Some (Inl (WebError ''Error running mode solver.'' None),
           sample_submitted\<lparr>trace := trace sample_submitted @
              [Sleep, HttpGet ''tidy3d/modesolver/py/t1/s1'',
               LogMsg ''DEBUG'' ''Mode solver status: running'',
               ConsoleLog ''Mode solver status: running'',
               Sleep, HttpGet ''tidy3d/modesolver/py/t1/s1''],
             tick := 9\<rparr>) \<and>
   status_changes [Some ''draft'', Some ''running'', Some ''error''] =
     [Some ''running'', Some ''error'']"
proof -
  let ?ps = "[Some ''running'', Some ''error'']"
  have polls: "\<forall>i<length ?ps. polled (sample_env_ending ''error'') sample_task (tick sample_submitted + i) = Inr (?ps ! i)"
    by (auto simp: sample_ending_polled sample_submitted_tick nth_Cons' less_Suc_eq numeral_2_eq_2)
  have nt: "\<forall>s\<in>set (butlast (status sample_task # ?ps)). \<not> terminal s"
    by (simp add: sample_task_def terminal_def)
  have t: "terminal (last (status sample_task # ?ps))"
    by (simp add: terminal_def)
  show ?thesis
    using run_eq[OF sample_ending_submit polls nt t, of "UserPath ''mode_solver.hdf5''" None]
    by (simp add: run_finish_error status_changes_def status_line_def sample_task_def
          task_url_def MODESOLVER_API_def sample_submitted_tick)
qed

section \<open>A run that ends without a result\<close>

text \<open>
  Claim C4. If polling ends with the status \<^verbatim>\<open>error\<close>, \<^verbatim>\<open>run\<close> raises the error
  \<^verbatim>\<open>WebError("Error running mode solver.")\<close>; in the whole run no artifact is downloaded
  (\<^verbatim>\<open>get_result\<close>, whose first action is a download, is not called) and no result is
  cached in a payload.
\<close>

theorem run_error_raises_without_download:
  assumes "run_submit E ms tn msn fn v cbu red w0 = (Inr task, w)"
    and "\<forall>i<length ps. polled E task (tick w + i) = Inr (ps ! i)"
    and "\<forall>s\<in>set (butlast (status task # ps)). \<not> terminal s"
    and "last (status task # ps) = Some ''error''"
  shows "\<exists>w'. run E ms tn msn fn rf v cbu cbd red w0 =
                Some (Inl (WebError ''Error running mode solver.'' None), w') \<and>
              \<not> list_ex is_download (drop (length (trace w0)) (trace w')) \<and>
              data_raw w' = data_raw w0"
proof -
  have "terminal (last (status task # ps))" "last (status task # ps) \<noteq> Some ''success''"
    using assms(4) by (simp_all add: terminal_def)
  from run_without_result[OF assms(1-3) this] assms(4) show ?thesis
    by simp
qed

text \<open>The sample run against a server that ends in \<^verbatim>\<open>error\<close>.\<close>

theorem run_error_raises_without_download_witness:
  "\<exists>w'. run (sample_env_ending ''error'') 3 ''Untitled'' ''mode_solver'' ''Mode Solver''
            (UserPath ''mode_solver.hdf5'') True None None Auto sample_world =
          Some (Inl (WebError ''Error running mode solver.'' None), w') \<and>
        \<not> list_ex is_download (trace w') \<and>
        data_raw w' = (\<lambda>_. None)"
proof -
  let ?ps = "[Some ''running'', Some ''error'']"
  have polls: "\<forall>i<length ?ps. polled (sample_env_ending ''error'') sample_task (tick sample_submitted + i) = Inr (?ps ! i)"
    by (auto simp: sample_ending_polled sample_submitted_tick nth_Cons' less_Suc_eq numeral_2_eq_2)
  have nt: "\<forall>s\<in>set (butlast (status sample_task # ?ps)). \<not> terminal s"
    by (simp add: sample_task_def terminal_def)
  have t: "last (status sample_task # ?ps) = Some ''error''"
    by simp
  show ?thesis
    using run_error_raises_without_download[OF sample_ending_submit polls nt t,
            of "UserPath ''mode_solver.hdf5''" None]
    by (simp add: sample_world_def)
qed

text \<open>
  Claim C5. If polling ends with the status \<^verbatim>\<open>diverged\<close> or \<^verbatim>\<open>deleted\<close>, \<^verbatim>\<open>run\<close> returns
  \<^verbatim>\<open>None\<close> and does not raise; in the whole run no artifact is downloaded (\<^verbatim>\<open>get_result\<close>
  is not called) and the cache of raw data of every payload is what it was before the
  run, so nothing stands in the way of a later retrieval with the same task record.
\<close>

theorem run_no_result_sentinel:
  assumes "run_submit E ms tn msn fn v cbu red w0 = (Inr task, w)"
    and "\<forall>i<length ps. polled E task (tick w + i) = Inr (ps ! i)"
    and "\<forall>s\<in>set (butlast (status task # ps)). \<not> terminal s"
    and "last (status task # ps) = Some ''diverged'' \<or> last (status task # ps) = Some ''deleted''"
  shows "\<exists>w'. run E ms tn msn fn rf v cbu cbd red w0 = Some (Inr None, w') \<and>
              \<not> list_ex is_download (drop (length (trace w0)) (trace w')) \<and>
              data_raw w' = data_raw w0"
proof -
  have "terminal (last (status task # ps))" "last (status task # ps) \<noteq> Some ''success''"
    and ne: "last (status task # ps) \<noteq> Some ''error''"
    using assms(4) by (auto simp: terminal_def)
  from run_without_result[OF assms(1-3) this(1,2)] ne show ?thesis
    by simp
qed

text \<open>The sample run against a server that ends in \<^verbatim>\<open>deleted\<close>.\<close>

theorem run_no_result_sentinel_witness:
  "\<exists>w'. run (sample_env_ending ''deleted'') 3 ''Untitled'' ''mode_solver'' ''Mode Solver''
            (UserPath ''mode_solver.hdf5'') True None None Auto sample_world =
          Some (Inr None, w') \<and>
        \<not> list_ex is_download (trace w') \<and>
        data_raw w' = (\<lambda>_. None)"
proof -
  let ?ps = "[Some ''running'', Some ''deleted'']"
  have polls: "\<forall>i<length ?ps. polled (sample_env_ending ''deleted'') sample_task (tick sample_submitted + i) = Inr (?ps ! i)"
    by (auto simp: sample_ending_polled sample_submitted_tick nth_Cons' less_Suc_eq numeral_2_eq_2)
  have nt: "\<forall>s\<in>set (butlast (status sample_task # ?ps)). \<not> terminal s"
    by (simp add: sample_task_def terminal_def)
  have t: "last (status sample_task # ?ps) = Some ''diverged'' \<or> last (status sample_task # ?ps) = Some ''deleted''"
    by simp
  show ?thesis
    using run_no_result_sentinel[OF sample_ending_submit polls nt t,
            of "UserPath ''mode_solver.hdf5''" None]
    by (simp add: sample_world_def)
qed

section \<open>The record that polling returns\<close>

lemma init_mode_solver:
  assumes "''mode_solver'' \<notin> fst ` set d"
    and "ModeSolverTask_init E (d @ [(''mode_solver'', case ms of None \<Rightarrow> PNone | Some m \<Rightarrow> PModeSolver m)]) = Inr info"
  shows "mode_solver info = ms"
proof -
  have "map_of d ''mode_solver'' = None"
    using assms(1) by (simp add: map_of_eq_None_iff)
  then have "map_of (d @ [(''mode_solver'', case ms of None \<Rightarrow> PNone | Some m \<Rightarrow> PModeSolver m)]) ''mode_solver''
      = Some (case ms of None \<Rightarrow> PNone | Some m \<Rightarrow> PModeSolver m)"
    by (simp add: map_add_def)
  then show ?thesis
    using assms(2) by (cases ms) (auto simp: ModeSolverTask_init_def Let_def split: if_splits)
qed

lemma with_mode_solver:
  "ModeSolverTask_with E resp ms = Inr info \<Longrightarrow> mode_solver info = ms"
  by (cases resp) (auto simp: ModeSolverTask_with_def split: if_splits dest: init_mode_solver)

text \<open>
  Claim C9. For every task record, \<^verbatim>\<open>get_info\<close> issues one GET request for the record and
  touches nothing else: the cache of every payload is as it was. When it returns a
  record, that record is the one built from the server's response, and its payload
  field holds the very payload object of the original record: polling never replaces,
  drops or mutates the payload held locally.
\<close>

theorem get_info_same_payload:
  "snd (get_info E self w) = w\<lparr>trace := trace w @ [HttpGet (task_url self)], tick := Suc (tick w)\<rparr> \<and>
   data_raw (snd (get_info E self w)) = data_raw w \<and>
   (\<forall>info. fst (get_info E self w) = Inr info \<longrightarrow>
      mode_solver info = mode_solver self \<and>
      (\<exists>resp. http_get_res E (tick w) = Inr resp \<and>
              ModeSolverTask_with E resp (mode_solver self) = Inr info))"
  by (cases "http_get_res E (tick w)")
     (auto simp: get_info_def io_bind_def call_def lift_def dest: with_mode_solver)

text \<open>A poll of the sample task on the sample server.\<close>

theorem get_info_same_payload_witness:
  "fst (get_info sample_env sample_task sample_world) = Inr (sample_task\<lparr>status := Some ''running''\<rparr>) \<and>
   mode_solver (sample_task\<lparr>status := Some ''running''\<rparr>) = mode_solver sample_task \<and>
   data_raw (snd (get_info sample_env sample_task sample_world)) = data_raw sample_world"
  using get_info_same_payload[of sample_env sample_task sample_world]
  by (simp add: get_info_def sample_defs)

section \<open>Fields beyond the declared schema\<close>






section \<open>Validation in create\<close>

text \<open>
  Claim C2, as amended. \<^verbatim>\<open>create\<close> resolves the folder first and validates the payload
  next, before the request that creates the task: once the folder is resolved, a payload
  that fails either validation makes \<^verbatim>\<open>create\<close> raise the validation error, and the
  folder resolution is the only request made (no task is created).
\<close>

theorem create_validates_after_folder:
  assumes "Folder_get_res E (tick w) = Inr folder_id"
    and "validate_pre_upload E ms = Some e \<or>
         validate_pre_upload E ms = None \<and>
         sim_validate_pre_upload E (simulation E ms) False = Some e"
  shows "create E ms task_name mode_solver_name folder_name w =
           (Inl e, w\<lparr>trace := trace w @ [FolderGet folder_name True], tick := Suc (tick w)\<rparr>)"
  using assms
  by (auto simp: create_def io_bind_def call_def raise_if_def io_raise_def io_return_def)

text \<open>The sample payload, failing its validation.\<close>

theorem create_validates_after_folder_witness:
  "create sample_env_invalid 3 ''Untitled'' ''mode_solver'' ''Mode Solver'' sample_world =
     (Inl (OtherException ''SetupError''),
      sample_world\<lparr>trace := trace sample_world @ [FolderGet ''Mode Solver'' True],
                   tick := Suc (tick sample_world)\<rparr>)"
  using create_validates_after_folder[of sample_env_invalid sample_world "''folder-1''" 3
          "OtherException ''SetupError''" "''Untitled''" "''mode_solver''" "''Mode Solver''"]
  by (simp add: sample_env_invalid_def sample_env_def)

text \<open>
  The claim as first stated, no remote request at all (folder resolution included) for a
  payload that fails validation, is false: with the failing sample payload \<^verbatim>\<open>create\<close>
  raises the validation error after it has asked the registry for the folder.
\<close>

theorem create_resolves_folder_before_validation:
  "fst (create sample_env_invalid 3 ''Untitled'' ''mode_solver'' ''Mode Solver'' sample_world) =
     Inl (OtherException ''SetupError'') \<and>
   trace sample_world = [] \<and>
   trace (snd (create sample_env_invalid 3 ''Untitled'' ''mode_solver'' ''Mode Solver'' sample_world)) =
     [FolderGet ''Mode Solver'' True]"
  by (simp add: create_def io_bind_def call_def raise_if_def io_raise_def io_return_def
        sample_env_invalid_def sample_env_def sample_world_def)

section \<open>Retrieving the result\<close>

lemmas io_defs = io_bind_def io_return_def io_raise_def call_def emit_def lift_def
  try_except_def try_finally_def




section \<open>Rebuilding the payload\<close>

lemma removeAll_fresh_tmp [simp]:
  "removeAll (TempPath (fresh_tmp fs) sfx) fs = fs"
  by (simp add: fresh_tmp_notin)

text \<open>
  Claim C6. \<^verbatim>\<open>get_modesolver\<close> branches on \<open>file_type\<close>. When every collaborator
  succeeds:
  \<^item> for \<^verbatim>\<open>Gz\<close> it downloads the one compressed archive of the solver and deserializes it;
  \<^item> for \<^verbatim>\<open>Hdf5\<close> it downloads the one uncompressed archive and deserializes it;
  \<^item> for any other value it downloads two artifacts, the JSON description of the solver
    and the JSON of the parent task's simulation, puts the simulation into the
    description and deserializes the merged dictionary;
  and in each branch the last action is to write the payload to the path the caller
  named, after which that payload is returned.
\<close>

theorem get_modesolver_branches:
  "(file_type self = Some ''Gz'' \<and>
    download_file_res E (tick w) = Inr p \<and>
    from_hdf5_gz_res E (tick w + 1) = Inr ms \<and>
    to_file_res E (tick w + 2) = Inr () \<longrightarrow>
    get_modesolver E self to_file sim_file verbose cb w =
      (Inr ms,
       w\<lparr>trace := trace w @
            [Mkstemp ''.hdf5.gz'' (TempPath (fresh_tmp (tmpfiles w)) ''.hdf5.gz''),
             OsClose (TempPath (fresh_tmp (tmpfiles w)) ''.hdf5.gz''),
             DownloadFile (solver_id self) MODESOLVER_GZ
               (TempPath (fresh_tmp (tmpfiles w)) ''.hdf5.gz'') verbose cb,
             FromHdf5Gz (TempPath (fresh_tmp (tmpfiles w)) ''.hdf5.gz''),
             OsUnlink (TempPath (fresh_tmp (tmpfiles w)) ''.hdf5.gz''),
             ToFile ms to_file],
          tick := tick w + 3\<rparr>)) \<and>
   (file_type self = Some ''Hdf5'' \<and>
    download_file_res E (tick w) = Inr p \<and>
    from_hdf5_res E (tick w + 1) = Inr ms \<and>
    to_file_res E (tick w + 2) = Inr () \<longrightarrow>
    get_modesolver E self to_file sim_file verbose cb w =
      (Inr ms,
       w\<lparr>trace := trace w @
            [Mkstemp ''.hdf5'' (TempPath (fresh_tmp (tmpfiles w)) ''.hdf5''),
             OsClose (TempPath (fresh_tmp (tmpfiles w)) ''.hdf5''),
             DownloadFile (solver_id self) MODESOLVER_HDF5
               (TempPath (fresh_tmp (tmpfiles w)) ''.hdf5'') verbose cb,
             FromHdf5 (TempPath (fresh_tmp (tmpfiles w)) ''.hdf5''),
             OsUnlink (TempPath (fresh_tmp (tmpfiles w)) ''.hdf5''),
             ToFile ms to_file],
          tick := tick w + 3\<rparr>)) \<and>
   (file_type self \<noteq> Some ''Gz'' \<and> file_type self \<noteq> Some ''Hdf5'' \<and>
    download_file_res E (tick w) = Inr p \<and>
    dict_from_json_res E (tick w + 1) = Inr d \<and>
    download_file_res E (tick w + 2) = Inr p2 \<and>
    sim_from_json_res E (tick w + 3) = Inr sim \<and>
    parse_obj_res E (tick w + 4) = Inr ms \<and>
    to_file_res E (tick w + 5) = Inr () \<longrightarrow>
    get_modesolver E self to_file sim_file verbose cb w =
      (Inr ms,
       w\<lparr>trace := trace w @
            [Mkstemp ''.json'' (TempPath (fresh_tmp (tmpfiles w)) ''.json''),
             OsClose (TempPath (fresh_tmp (tmpfiles w)) ''.json''),
             DownloadFile (solver_id self) MODESOLVER_JSON
               (TempPath (fresh_tmp (tmpfiles w)) ''.json'') verbose cb,
             DictFromJson (TempPath (fresh_tmp (tmpfiles w)) ''.json''),
             OsUnlink (TempPath (fresh_tmp (tmpfiles w)) ''.json''),
             DownloadFile (task_id self) SIMULATION_JSON sim_file verbose cb,
             SimFromJson sim_file,
             ParseObj (AList.update ''simulation'' (PSimulation sim) d),
             ToFile ms to_file],
          tick := tick w + 6\<rparr>))"
  by (simp add: get_modesolver_def io_defs mkstemp_def os_close_def os_unlink_def Let_def
        numeral_eq_Suc)


text \<open>The three branches on the sample server.\<close>

theorem get_modesolver_branches_witness:
  "get_modesolver sample_env sample_task (UserPath ''ms.hdf5'') (UserPath ''sim.hdf5'') True None
       sample_world =
     (Inr 5,
      sample_world\<lparr>trace :=
          [Mkstemp ''.hdf5.gz'' (TempPath 0 ''.hdf5.gz''),
           OsClose (TempPath 0 ''.hdf5.gz''),
           DownloadFile (Some ''s1'') ''mode_solver.hdf5.gz'' (TempPath 0 ''.hdf5.gz'') True None,
           FromHdf5Gz (TempPath 0 ''.hdf5.gz''),
           OsUnlink (TempPath 0 ''.hdf5.gz''),
           ToFile 5 (UserPath ''ms.hdf5'')],
        tick := 3\<rparr>) \<and>
   get_modesolver sample_env (sample_task\<lparr>file_type := Some ''Hdf5''\<rparr>) (UserPath ''ms.hdf5'')
       (UserPath ''sim.hdf5'') True None sample_world =
     (Inr 6,
      sample_world\<lparr>trace :=
          [Mkstemp ''.hdf5'' (TempPath 0 ''.hdf5''),
           OsClose (TempPath 0 ''.hdf5''),
           DownloadFile (Some ''s1'') ''mode_solver.hdf5'' (TempPath 0 ''.hdf5'') True None,
           FromHdf5 (TempPath 0 ''.hdf5''),
           OsUnlink (TempPath 0 ''.hdf5''),
           ToFile 6 (UserPath ''ms.hdf5'')],
        tick := 3\<rparr>) \<and>
   get_modesolver sample_env (sample_task\<lparr>file_type := Some ''Json''\<rparr>) (UserPath ''ms.hdf5'')
       (UserPath ''sim.hdf5'') True None sample_world =
     (Inr 7,
      sample_world\<lparr>trace :=
          [Mkstemp ''.json'' (TempPath 0 ''.json''),
           OsClose (TempPath 0 ''.json''),
           DownloadFile (Some ''s1'') ''mode_solver.json'' (TempPath 0 ''.json'') True None,
           DictFromJson (TempPath 0 ''.json''),
           OsUnlink (TempPath 0 ''.json''),
           DownloadFile (Some ''t1'') ''simulation.json'' (UserPath ''sim.hdf5'') True None,
           SimFromJson (UserPath ''sim.hdf5''),
           ParseObj [(''plane'', PStr ''xy''), (''simulation'', PSimulation 8)],
           ToFile 7 (UserPath ''ms.hdf5'')],
        tick := 6\<rparr>)"
  using get_modesolver_branches[of sample_task sample_env sample_world "UserPath ''out''" 5
          "UserPath ''ms.hdf5''" "UserPath ''sim.hdf5''" True None]
        get_modesolver_branches[of "sample_task\<lparr>file_type := Some ''Hdf5''\<rparr>" sample_env
          sample_world "UserPath ''out''" 6 "UserPath ''ms.hdf5''" "UserPath ''sim.hdf5''" True None]
        get_modesolver_branches[of "sample_task\<lparr>file_type := Some ''Json''\<rparr>" sample_env
          sample_world "UserPath ''out''" 7 "UserPath ''ms.hdf5''" "UserPath ''sim.hdf5''" True None
          "[(''plane'', PStr ''xy'')]" "UserPath ''out''" 8]
  by (simp add: sample_env_def sample_world_def sample_task_def fresh_tmp_def
        MODESOLVER_GZ_def MODESOLVER_HDF5_def MODESOLVER_JSON_def SIMULATION_JSON_def)

end
